theory Spec2Isabelle
  imports Main "HOL-Library.Sublist"
begin

section \<open>create-users2.py: the embedding\<close>

text \<open>
  The script is one function, \<open>main\<close>: it asks on \<open>/dev/tty\<close> whether to run in dry-run
  mode, then walks over the lines of standard input and, for each line that is a record,
  prints and (in live mode) executes three kinds of commands.

  A Python \<open>str\<close> is modelled as a \<open>string\<close>, one \<open>char\<close> per code point (code points
  below 256). What the script does to the outside world is a list of events, in the order
  in which they happen: text written to standard output, a line read from the terminal, a
  line read from standard input, and a call of \<open>os.system\<close>. Standard input is the list
  of its lines as the \<open>for\<close> loop yields them, each with its newline (the last one
  possibly without).

  The script catches no exception, so an exception ends the run where it is raised. Two
  calls of the script can raise on the inputs modelled here: \<open>open('/dev/tty')\<close> when there
  is no controlling terminal, and \<open>os.system(cmd)\<close> when \<open>cmd\<close> holds a NUL character
  (\<open>ValueError: embedded null byte\<close>, raised before any command is run). When the call
  does not raise, the command it runs is opaque and its exit status is discarded, as the
  script discards it.
\<close>

subsection \<open>Library functions used by the script\<close>

text \<open>\<open>str.isspace\<close> on one character, for the code points below 256.\<close>

definition isspace :: "char \<Rightarrow> bool" where
  "isspace c =
     (let n = (of_char c :: nat)
      in (9 \<le> n \<and> n \<le> 13) \<or> (28 \<le> n \<and> n \<le> 32) \<or> n = 133 \<or> n = 160)"

text \<open>\<open>s.strip()\<close>: leading and trailing whitespace removed.\<close>

definition strip :: "string \<Rightarrow> string" where
  "strip s = rev (dropWhile isspace (rev (dropWhile isspace s)))"

text \<open>\<open>s.rstrip("\n")\<close>: every trailing newline removed.\<close>

definition rstrip_nl :: "string \<Rightarrow> string" where
  "rstrip_nl s = rev (dropWhile (\<lambda>c. c = CHR 0x0A) (rev s))"

text \<open>
  \<open>s.upper()\<close>. The ASCII letters are mapped to their capitals; any other character is
  left as it is (no character other than \<open>y\<close> and \<open>Y\<close> has the capital \<open>Y\<close>, which is all
  the script's comparison looks at).
\<close>

definition upper_char :: "char \<Rightarrow> char" where
  "upper_char c =
     (let n = (of_char c :: nat)
      in if 97 \<le> n \<and> n \<le> 122 then char_of (n - 32) else c)"

definition upper :: "string \<Rightarrow> string" where
  "upper s = map upper_char s"

text \<open>
  \<open>s.split(sep)\<close> for a one-character separator: the fields between the separators,
  empty fields kept; the empty string splits to one empty field.
\<close>

fun split_str :: "char \<Rightarrow> string \<Rightarrow> string list" where
  "split_str sep [] = [[]]"
| "split_str sep (c # cs) =
     (if c = sep then [] # split_str sep cs
      else (let r = split_str sep cs in (c # hd r) # tl r))"

text \<open>\<open>re.match("^#", line)\<close>: the pattern matches at position 0 exactly when the first
  character of the line is \<open>#\<close>.\<close>

definition re_match_hash :: "string \<Rightarrow> bool" where
  "re_match_hash line = (case line of [] \<Rightarrow> False | c # _ \<Rightarrow> c = CHR ''#'')"

text \<open>\<open>f.readline()\<close> on the lines still to be read: the next line, or the empty string at
  end of file.\<close>

fun readline :: "string list \<Rightarrow> string \<times> string list" where
  "readline [] = ([], [])"
| "readline (l # ls) = (l, ls)"

subsection \<open>Events\<close>

datatype event =
    Write string       \<comment> \<open>characters written to standard output\<close>
  | ReadTty string     \<comment> \<open>one line read from \<open>/dev/tty\<close>\<close>
  | ReadStdin string   \<comment> \<open>one line taken from \<open>sys.stdin\<close> by the \<open>for\<close> loop\<close>
  | System string      \<comment> \<open>the call \<open>os.system(cmd)\<close> is made with this command\<close>

datatype error =
    OSError      \<comment> \<open>\<open>open('/dev/tty')\<close> fails: no controlling terminal\<close>
  | ValueError   \<comment> \<open>\<open>os.system\<close> is given a command holding a NUL character\<close>

text \<open>
  The outcome of a piece of the script: the events up to its end or up to the exception
  that ended it, and that exception, if any.
\<close>

type_synonym outcome = "event list \<times> error option"

text \<open>Statements that raise nothing, and a statement that raises at once.\<close>

definition emit :: "event list \<Rightarrow> outcome" where
  "emit es = (es, None)"

definition throw :: "error \<Rightarrow> outcome" where
  "throw e = ([], Some e)"

text \<open>One piece after another: the second runs only when the first raised nothing.\<close>

definition andthen :: "outcome \<Rightarrow> outcome \<Rightarrow> outcome" where
  "andthen a b = (if snd a = None then (fst a @ fst b, snd b) else a)"

text \<open>\<open>print(s)\<close> writes \<open>s\<close> and a newline; \<open>print(s, end='')\<close> writes \<open>s\<close> alone.\<close>

definition py_print :: "string \<Rightarrow> event" where
  "py_print s = Write (s @ [CHR 0x0A])"

definition print_noend :: "string \<Rightarrow> event" where
  "print_noend s = Write s"

text \<open>
  \<open>os.system(cmd)\<close>: the call is made; it raises \<open>ValueError\<close> when the command holds
  a NUL character, and otherwise runs the command and returns.
\<close>

definition os_system :: "string \<Rightarrow> outcome" where
  "os_system cmd = ([System cmd], if CHR 0x00 \<in> set cmd then Some ValueError else None)"

subsection \<open>The command strings\<close>

text \<open>The three \<open>%\<close>-formatted command templates and the GECOS field of the script.\<close>

definition gecos_of :: "string list \<Rightarrow> string" where
  "gecos_of fields = fields ! 3 @ '' '' @ fields ! 2 @ '',,,''"

definition create_cmd :: "string \<Rightarrow> string \<Rightarrow> string" where
  "create_cmd gecos username =
     ''/usr/sbin/useradd -m -c '' @ [CHR 0x27] @ gecos @ [CHR 0x27] @ '' '' @ username"

definition passwd_cmd :: "string \<Rightarrow> string \<Rightarrow> string" where
  "passwd_cmd password username =
     ''/bin/echo -ne '' @ [CHR 0x27] @ password @ [CHR 0x0A] @ password @ [CHR 0x27]
       @ '' | /usr/bin/sudo /usr/bin/passwd '' @ username"

definition group_cmd :: "string \<Rightarrow> string \<Rightarrow> string" where
  "group_cmd username grp = ''/usr/sbin/adduser '' @ username @ '' '' @ grp"

subsection \<open>The body of the loop\<close>

text \<open>The inner loop \<open>for group in groups\<close> (the loop variable is \<open>grp\<close> here).\<close>

fun assign_groups :: "bool \<Rightarrow> string \<Rightarrow> string list \<Rightarrow> outcome" where
  "assign_groups dry_run username [] = emit []"
| "assign_groups dry_run username (grp # groups) =
     andthen
       (if grp \<noteq> ''-'' then
          andthen
            (emit [py_print (''==> Assigning '' @ username @ '' to the '' @ grp @ '' group...'')])
            (if dry_run then
               emit [py_print (''DRY-RUN: would run: '' @ group_cmd username grp)]
             else
               andthen (emit [py_print (group_cmd username grp)])
                       (os_system (group_cmd username grp)))
        else emit [])
       (assign_groups dry_run username groups)"

text \<open>One iteration of \<open>for line in sys.stdin\<close>, from \<open>raw_line = ...\<close> to the end of the
  body; each \<open>continue\<close> ends the iteration with the events so far.\<close>

definition process_line :: "bool \<Rightarrow> string \<Rightarrow> outcome" where
  "process_line dry_run line =
     (let raw_line = rstrip_nl line;
          match = re_match_hash line;
          fields = split_str CHR '':'' (strip line)
      in if match then
           (if dry_run then emit [py_print (''SKIP (comment line): '' @ raw_line)] else emit [])
         else if length fields \<noteq> 5 then
           (if dry_run then
              emit [py_print (''ERROR (dry-run): Not enough fields in line: '' @ raw_line)]
            else emit [])
         else
           (let username = fields ! 0;
                password = fields ! 1;
                gecos = gecos_of fields;
                groups = split_str CHR '','' (fields ! 4)
            in andthen (emit [py_print (''==> Creating account for '' @ username @ ''...'')])
              (andthen
                 (if dry_run then
                    emit [py_print (''DRY-RUN: would run: '' @ create_cmd gecos username)]
                  else
                    andthen (emit [py_print (create_cmd gecos username)])
                            (os_system (create_cmd gecos username)))
              (andthen (emit [py_print (''==> Setting the password for '' @ username @ ''...'')])
              (andthen
                 (if dry_run then
                    emit [py_print (''DRY-RUN: would run: '' @ passwd_cmd password username)]
                  else
                    andthen (emit [py_print (passwd_cmd password username)])
                            (os_system (passwd_cmd password username)))
              (assign_groups dry_run username groups))))))"

subsection \<open>The loop and \<open>main\<close>\<close>

text \<open>\<open>for line in sys.stdin\<close>: each line is taken from the stream, then processed.\<close>

fun process_stdin :: "bool \<Rightarrow> string list \<Rightarrow> outcome" where
  "process_stdin dry_run [] = emit []"
| "process_stdin dry_run (line # rest) =
     andthen (emit [ReadStdin line])
       (andthen (process_line dry_run line) (process_stdin dry_run rest))"

text \<open>The comparison \<open>dry_run = (mode == "Y")\<close> on the answer read from the terminal.\<close>

definition select_mode :: "string \<Rightarrow> bool" where
  "select_mode answer = (upper (strip answer) = ''Y'')"

text \<open>
  \<open>main\<close>. The terminal is \<open>None\<close> when \<open>/dev/tty\<close> cannot be opened (the exception ends
  the program before anything is printed), otherwise the lines that can be read from it.
  The result is the outcome of the run together with the lines of the terminal that
  were not read.
\<close>

definition main :: "string list option \<Rightarrow> string list \<Rightarrow> outcome \<times> string list" where
  "main tty stdin =
     (case tty of
        None \<Rightarrow> (throw OSError, [])
      | Some tty_lines \<Rightarrow>
          (let (answer, tty_rest) = readline tty_lines;
               dry_run = select_mode answer
           in (andthen (emit [print_noend ''Run in dry-run mode? (Y/N): '', ReadTty answer])
                       (process_stdin dry_run stdin),
               tty_rest)))"

subsection \<open>Reading a trace\<close>

text \<open>The commands with which \<open>os.system\<close> was called, in order.\<close>

fun called :: "event list \<Rightarrow> string list" where
  "called [] = []"
| "called (System c # es) = c # called es"
| "called (e # es) = called es"

text \<open>The commands that were run: the calls of \<open>os.system\<close> that did not raise.\<close>

definition executed :: "event list \<Rightarrow> string list" where
  "executed es = filter (\<lambda>c. CHR 0x00 \<notin> set c) (called es)"

text \<open>The commands printed by one \<open>print\<close> call behind the marker
  \<open>DRY-RUN: would run: \<close>, in order.\<close>

definition marker :: string where
  "marker = ''DRY-RUN: would run: ''"

fun would_run :: "event list \<Rightarrow> string list" where
  "would_run [] = []"
| "would_run (Write t # es) =
     (if t \<noteq> [] \<and> last t = CHR 0x0A \<and> take (length marker) t = marker
      then butlast (drop (length marker) t) # would_run es
      else would_run es)"
| "would_run (e # es) = would_run es"

text \<open>The three classes of a line, by the two tests of the loop body.\<close>

datatype line_class = Comment | Malformed | Valid

definition classify :: "string \<Rightarrow> line_class" where
  "classify line =
     (if re_match_hash line then Comment
      else if length (split_str CHR '':'' (strip line)) \<noteq> 5 then Malformed
      else Valid)"

text \<open>The lines read from the terminal and from standard input, in order.\<close>

fun tty_reads :: "event list \<Rightarrow> string list" where
  "tty_reads [] = []"
| "tty_reads (ReadTty a # es) = a # tty_reads es"
| "tty_reads (e # es) = tty_reads es"

fun stdin_reads :: "event list \<Rightarrow> string list" where
  "stdin_reads [] = []"
| "stdin_reads (ReadStdin l # es) = l # stdin_reads es"
| "stdin_reads (e # es) = stdin_reads es"

text \<open>The variables of the loop body, as functions of the line.\<close>

abbreviation fields_of :: "string \<Rightarrow> string list" where
  "fields_of line \<equiv> split_str CHR '':'' (strip line)"

abbreviation username_of :: "string \<Rightarrow> string" where
  "username_of line \<equiv> fields_of line ! 0"

abbreviation password_of :: "string \<Rightarrow> string" where
  "password_of line \<equiv> fields_of line ! 1"

abbreviation groups_of :: "string \<Rightarrow> string list" where
  "groups_of line \<equiv> split_str CHR '','' (fields_of line ! 4)"

abbreviation create_cmd_of :: "string \<Rightarrow> string" where
  "create_cmd_of line \<equiv> create_cmd (gecos_of (fields_of line)) (username_of line)"

abbreviation passwd_cmd_of :: "string \<Rightarrow> string" where
  "passwd_cmd_of line \<equiv> passwd_cmd (password_of line) (username_of line)"

text \<open>The \<open>if dry_run: ... else: ...\<close> block that follows each command: the command is
  shown behind the marker, or printed and handed to \<open>os.system\<close>.\<close>

definition show_or_run :: "bool \<Rightarrow> string \<Rightarrow> outcome" where
  "show_or_run dry_run cmd =
     (if dry_run then emit [py_print (marker @ cmd)]
      else andthen (emit [py_print cmd]) (os_system cmd))"

text \<open>
  A live outcome and a dry-run outcome agree when the dry-run one raises nothing and
  calls nothing, the commands run by the live one are an initial segment of the commands
  shown by the dry-run one, and are all of them when the live one raises nothing.
\<close>

definition agrees :: "outcome \<Rightarrow> outcome \<Rightarrow> bool" where
  "agrees live dry \<longleftrightarrow>
     snd dry = None \<and> called (fst dry) = []
     \<and> prefix (executed (fst live)) (would_run (fst dry))
     \<and> (snd live = None \<longrightarrow> executed (fst live) = would_run (fst dry))"

section \<open>Properties\<close>

subsection \<open>Outcomes\<close>

lemma andthen_emit: "andthen (emit xs) r = (xs @ fst r, snd r)"
  by (simp add: andthen_def emit_def)

lemma andthen_emit_Nil: "andthen (emit []) r = r"
  by (simp add: andthen_def emit_def)

lemma fst_andthen: "fst (andthen a b) = (if snd a = None then fst a @ fst b else fst a)"
  by (simp add: andthen_def)

lemma snd_andthen: "snd (andthen a b) = (if snd a = None then snd b else snd a)"
  by (simp add: andthen_def)

lemma snd_andthen_None: "snd (andthen a b) = None \<longleftrightarrow> snd a = None \<and> snd b = None"
  by (auto simp: andthen_def)

lemma andthen_assoc: "andthen (andthen a b) c = andthen a (andthen b c)"
  by (auto simp: andthen_def)



lemma fst_emit: "fst (emit xs) = xs" and snd_emit: "snd (emit xs) = None"
  by (simp_all add: emit_def)

subsection \<open>Traces\<close>

lemma called_append: "called (xs @ ys) = called xs @ called ys"
  by (induction xs rule: called.induct) simp_all

lemma executed_Nil: "executed [] = []"
  by (simp add: executed_def)

lemma executed_append: "executed (xs @ ys) = executed xs @ executed ys"
  by (simp add: executed_def called_append)

lemma would_run_append: "would_run (xs @ ys) = would_run xs @ would_run ys"
  by (induction xs rule: would_run.induct) simp_all

lemma tty_reads_append: "tty_reads (xs @ ys) = tty_reads xs @ tty_reads ys"
  by (induction xs rule: tty_reads.induct) simp_all

lemma stdin_reads_append: "stdin_reads (xs @ ys) = stdin_reads xs @ stdin_reads ys"
  by (induction xs rule: stdin_reads.induct) simp_all

lemma would_run_marked: "would_run (py_print (marker @ c) # es) = c # would_run es"
  by (simp add: py_print_def butlast_append)

lemma would_run_other:
  assumes "t \<noteq> []" and "hd t \<noteq> CHR ''D''"
  shows "would_run (py_print t # es) = would_run es"
proof -
  have "take (length marker) (t @ [CHR 0x0A]) \<noteq> marker"
  proof
    assume h: "take (length marker) (t @ [CHR 0x0A]) = marker"
    have "hd (take (length marker) (t @ [CHR 0x0A])) = hd t"
      using assms(1) by (cases t) (simp_all add: marker_def)
    with h have "hd t = hd marker" by simp
    with assms(2) show False by (simp add: marker_def)
  qed
  then show ?thesis by (simp add: py_print_def)
qed

lemma called_print: "called (py_print t # es) = called es"
  by (simp add: py_print_def)

lemma executed_print: "executed (py_print t # es) = executed es"
  by (simp add: executed_def called_print)

lemma executed_System:
  "executed (System c # es) = (if CHR 0x00 \<in> set c then executed es else c # executed es)"
  by (simp add: executed_def)

lemma tty_reads_print: "tty_reads (py_print t # es) = tty_reads es"
  by (simp add: py_print_def)

lemma stdin_reads_print: "stdin_reads (py_print t # es) = stdin_reads es"
  by (simp add: py_print_def)

subsection \<open>Showing or running one command\<close>

lemma show_or_run_dry: "show_or_run True c = ([py_print (marker @ c)], None)"
  by (simp add: show_or_run_def emit_def)

lemma show_or_run_live:
  "show_or_run False c =
     ([py_print c, System c], if CHR 0x00 \<in> set c then Some ValueError else None)"
  by (simp add: show_or_run_def andthen_emit os_system_def)

lemma fst_show_or_run:
  "fst (show_or_run dry_run c) =
     (if dry_run then [py_print (marker @ c)] else [py_print c, System c])"
  by (cases dry_run) (simp_all add: show_or_run_dry show_or_run_live)

lemma snd_show_or_run: "snd (show_or_run dry_run c) = None \<longleftrightarrow> dry_run \<or> CHR 0x00 \<notin> set c"
  by (cases dry_run) (simp_all add: show_or_run_dry show_or_run_live)

subsection \<open>Agreement of a live and a dry-run outcome\<close>

lemma agrees_quiet:
  assumes "called xs = []" and "called ys = []" and "would_run ys = []"
  shows "agrees (emit xs) (emit ys)"
  using assms by (simp add: agrees_def emit_def executed_def)

lemma agrees_show_or_run: "agrees (show_or_run False c) (show_or_run True c)"
  by (simp add: agrees_def show_or_run_dry show_or_run_live called_print would_run_marked
      executed_print executed_System executed_Nil)

lemma agrees_andthen:
  assumes "agrees a a'" and "agrees b b'"
  shows "agrees (andthen a b) (andthen a' b')"
proof -
  from assms have d: "snd a' = None" "snd b' = None" "called (fst a') = []" "called (fst b') = []"
    by (simp_all add: agrees_def)
  from assms have p: "prefix (executed (fst a)) (would_run (fst a'))"
    "prefix (executed (fst b)) (would_run (fst b'))"
    by (simp_all add: agrees_def)
  show ?thesis
  proof (cases "snd a = None")
    case True
    with assms(1) have e: "executed (fst a) = would_run (fst a')" by (simp add: agrees_def)
    from assms(2) have "snd b = None \<longrightarrow> executed (fst b) = would_run (fst b')"
      by (simp add: agrees_def)
    with True d p(2) e show ?thesis
      by (simp add: agrees_def andthen_def called_append executed_append would_run_append)
  next
    case False
    then obtain e where e: "snd a = Some e" by auto
    then have l: "andthen a b = a" by (simp add: andthen_def)
    from d have r: "andthen a' b' = (fst a' @ fst b', None)" by (simp add: andthen_def)
    from e d p(1) show ?thesis
      unfolding l r by (simp add: agrees_def called_append would_run_append prefix_prefix)
  qed
qed

subsection \<open>The inner loop over the groups\<close>

lemma assign_groups_Cons:
  "assign_groups dry_run u (g # gs) =
     andthen
       (if g \<noteq> ''-'' then
          andthen (emit [py_print (''==> Assigning '' @ u @ '' to the '' @ g @ '' group...'')])
                  (show_or_run dry_run (group_cmd u g))
        else emit [])
       (assign_groups dry_run u gs)"
  by (simp add: show_or_run_def marker_def)

lemma agrees_assign_groups: "agrees (assign_groups False u gs) (assign_groups True u gs)"
proof (induction gs)
  case Nil
  show ?case by (simp add: agrees_quiet)
next
  case (Cons g gs)
  have "agrees (emit [py_print (''==> Assigning '' @ u @ '' to the '' @ g @ '' group...'')])
               (emit [py_print (''==> Assigning '' @ u @ '' to the '' @ g @ '' group...'')])"
    by (rule agrees_quiet) (simp_all add: called_print would_run_other)
  then have "agrees
      (andthen (emit [py_print (''==> Assigning '' @ u @ '' to the '' @ g @ '' group...'')])
               (show_or_run False (group_cmd u g)))
      (andthen (emit [py_print (''==> Assigning '' @ u @ '' to the '' @ g @ '' group...'')])
               (show_or_run True (group_cmd u g)))"
    using agrees_show_or_run by (rule agrees_andthen)
  moreover have "agrees (emit []) (emit [])" by (simp add: agrees_quiet)
  ultimately have "agrees
      (if g \<noteq> ''-'' then
         andthen (emit [py_print (''==> Assigning '' @ u @ '' to the '' @ g @ '' group...'')])
                 (show_or_run False (group_cmd u g))
       else emit [])
      (if g \<noteq> ''-'' then
         andthen (emit [py_print (''==> Assigning '' @ u @ '' to the '' @ g @ '' group...'')])
                 (show_or_run True (group_cmd u g))
       else emit [])"
    by (simp only: if_split) simp
  then show ?case
    unfolding assign_groups_Cons using Cons.IH by (rule agrees_andthen)
qed

lemma snd_assign_groups:
  "snd (assign_groups dry_run u gs) = None \<longleftrightarrow>
     dry_run \<or> (\<forall>g\<in>set gs. g \<noteq> ''-'' \<longrightarrow> CHR 0x00 \<notin> set (group_cmd u g))"
  by (induction gs)
    (auto simp: assign_groups_Cons snd_andthen_None snd_show_or_run snd_emit
       simp del: assign_groups.simps(2))

lemma called_assign_groups:
  assumes "snd (assign_groups dry_run u gs) = None"
  shows "called (fst (assign_groups dry_run u gs)) =
           (if dry_run then [] else map (group_cmd u) (filter (\<lambda>g. g \<noteq> ''-'') gs))"
  using assms
  by (induction gs)
    (auto simp: assign_groups_Cons snd_andthen_None fst_andthen snd_show_or_run
       fst_show_or_run fst_emit snd_emit called_append called_print
       simp del: assign_groups.simps(2))


lemma would_run_assign_groups:
  "would_run (fst (assign_groups True u gs)) =
     map (group_cmd u) (filter (\<lambda>g. g \<noteq> ''-'') gs)"
  by (induction gs)
    (simp_all add: assign_groups_Cons fst_andthen snd_andthen_None snd_show_or_run
       fst_show_or_run fst_emit snd_emit would_run_append would_run_other would_run_marked
       del: assign_groups.simps(2))

lemma reads_assign_groups:
  "tty_reads (fst (assign_groups dry_run u gs)) = []"
  "stdin_reads (fst (assign_groups dry_run u gs)) = []"
  by (induction gs)
    (simp_all add: assign_groups_Cons fst_andthen fst_emit fst_show_or_run
       tty_reads_append stdin_reads_append tty_reads_print stdin_reads_print
       del: assign_groups.simps(2))



subsection \<open>One line\<close>

lemma classify_Valid:
  "classify line = Valid \<longleftrightarrow> \<not> re_match_hash line \<and> length (fields_of line) = 5"
  by (simp add: classify_def)

lemma classify_Comment: "classify line = Comment \<longleftrightarrow> re_match_hash line"
  by (simp add: classify_def)

lemma classify_Malformed:
  "classify line = Malformed \<longleftrightarrow> \<not> re_match_hash line \<and> length (fields_of line) \<noteq> 5"
  by (simp add: classify_def)

lemma process_line_comment:
  assumes "re_match_hash line"
  shows "process_line dry_run line =
           ((if dry_run then [py_print (''SKIP (comment line): '' @ rstrip_nl line)] else []),
            None)"
  using assms by (simp add: process_line_def emit_def)

lemma process_line_malformed:
  assumes "\<not> re_match_hash line" and "length (fields_of line) \<noteq> 5"
  shows "process_line dry_run line =
           ((if dry_run
             then [py_print (''ERROR (dry-run): Not enough fields in line: '' @ rstrip_nl line)]
             else []),
            None)"
  using assms by (simp add: process_line_def emit_def)

lemma process_line_valid:
  assumes "classify line = Valid"
  shows "process_line dry_run line =
           andthen (emit [py_print (''==> Creating account for '' @ username_of line @ ''...'')])
          (andthen (show_or_run dry_run (create_cmd_of line))
          (andthen (emit [py_print (''==> Setting the password for '' @ username_of line @ ''...'')])
          (andthen (show_or_run dry_run (passwd_cmd_of line))
                   (assign_groups dry_run (username_of line) (groups_of line)))))"
  using assms by (simp add: classify_Valid process_line_def show_or_run_def marker_def Let_def)

lemma process_line_skipped:
  assumes "classify line \<noteq> Valid"
  shows "snd (process_line dry_run line) = None"
    and "called (fst (process_line dry_run line)) = []"
    and "executed (fst (process_line dry_run line)) = []"
    and "would_run (fst (process_line dry_run line)) = []"
    and "tty_reads (fst (process_line dry_run line)) = []"
    and "stdin_reads (fst (process_line dry_run line)) = []"
proof -
  consider "re_match_hash line" | "\<not> re_match_hash line" "length (fields_of line) \<noteq> 5"
    using assms by (auto simp: classify_def split: if_splits)
  then have "snd (process_line dry_run line) = None
     \<and> called (fst (process_line dry_run line)) = []
     \<and> would_run (fst (process_line dry_run line)) = []
     \<and> tty_reads (fst (process_line dry_run line)) = []
     \<and> stdin_reads (fst (process_line dry_run line)) = []"
  proof cases
    case 1
    show ?thesis unfolding process_line_comment [OF 1]
      by (simp add: called_print would_run_other tty_reads_print stdin_reads_print)
  next
    case 2
    show ?thesis unfolding process_line_malformed [OF 2]
      by (simp add: called_print would_run_other tty_reads_print stdin_reads_print)
  qed
  then show "snd (process_line dry_run line) = None"
    and "called (fst (process_line dry_run line)) = []"
    and "executed (fst (process_line dry_run line)) = []"
    and "would_run (fst (process_line dry_run line)) = []"
    and "tty_reads (fst (process_line dry_run line)) = []"
    and "stdin_reads (fst (process_line dry_run line)) = []"
    by (simp_all add: executed_def)
qed

lemma process_line_dry_valid:
  assumes "classify line = Valid"
  shows "process_line True line =
           (py_print (''==> Creating account for '' @ username_of line @ ''...'')
            # py_print (marker @ create_cmd_of line)
            # py_print (''==> Setting the password for '' @ username_of line @ ''...'')
            # py_print (marker @ passwd_cmd_of line)
            # fst (assign_groups True (username_of line) (groups_of line)),
            None)"
proof -
  have "snd (assign_groups True (username_of line) (groups_of line)) = None"
    by (simp add: snd_assign_groups)
  then show ?thesis
    unfolding process_line_valid [OF assms]
    by (simp add: andthen_def emit_def show_or_run_dry)
qed

lemma fst_process_line_live_valid:
  assumes "classify line = Valid"
  shows "fst (process_line False line) =
           py_print (''==> Creating account for '' @ username_of line @ ''...'')
           # py_print (create_cmd_of line) # System (create_cmd_of line)
           # (if CHR 0x00 \<in> set (create_cmd_of line) then []
              else py_print (''==> Setting the password for '' @ username_of line @ ''...'')
                   # py_print (passwd_cmd_of line) # System (passwd_cmd_of line)
                   # (if CHR 0x00 \<in> set (passwd_cmd_of line) then []
                      else fst (assign_groups False (username_of line) (groups_of line))))"
  unfolding process_line_valid [OF assms]
  by (simp add: andthen_def emit_def show_or_run_live)


lemma snd_process_line_dry: "snd (process_line True line) = None"
  by (cases "classify line = Valid") (simp_all add: process_line_dry_valid process_line_skipped)

lemma would_run_line_valid:
  assumes "classify line = Valid"
  shows "would_run (fst (process_line True line)) =
           create_cmd_of line # passwd_cmd_of line
           # map (group_cmd (username_of line)) (filter (\<lambda>g. g \<noteq> ''-'') (groups_of line))"
  unfolding process_line_dry_valid [OF assms]
  by (simp add: would_run_other would_run_marked would_run_assign_groups)

lemma called_line_valid:
  assumes "classify line = Valid"
  shows "called (fst (process_line False line)) =
           create_cmd_of line
           # (if CHR 0x00 \<in> set (create_cmd_of line) then []
              else passwd_cmd_of line
                   # (if CHR 0x00 \<in> set (passwd_cmd_of line) then []
                      else called (fst (assign_groups False (username_of line) (groups_of line)))))"
  unfolding fst_process_line_live_valid [OF assms]
  by (simp add: called_print)


lemma executed_line_valid_first:
  assumes "classify line = Valid" and "CHR 0x00 \<notin> set (create_cmd_of line)"
  shows "take 1 (executed (fst (process_line False line))) = [create_cmd_of line]"
  unfolding fst_process_line_live_valid [OF assms(1)]
  using assms(2) by (simp add: executed_print executed_System)

lemma agrees_process_line: "agrees (process_line False line) (process_line True line)"
proof (cases "classify line = Valid")
  case True
  have q: "agrees (emit [py_print t]) (emit [py_print t])" if "t \<noteq> []" "hd t \<noteq> CHR ''D''" for t
    using that by (intro agrees_quiet) (simp_all add: called_print would_run_other)
  have a1: "agrees (emit [py_print (''==> Creating account for '' @ username_of line @ ''...'')])
                   (emit [py_print (''==> Creating account for '' @ username_of line @ ''...'')])"
    by (rule q) simp_all
  have a2: "agrees (emit [py_print (''==> Setting the password for '' @ username_of line @ ''...'')])
                   (emit [py_print (''==> Setting the password for '' @ username_of line @ ''...'')])"
    by (rule q) simp_all
  show ?thesis
    unfolding process_line_valid [OF True]
    by (intro agrees_andthen a1 a2 agrees_show_or_run agrees_assign_groups)
next
  case False
  then show ?thesis
    by (simp add: agrees_def process_line_skipped)
qed

lemma reads_line:
  "tty_reads (fst (process_line dry_run line)) = []"
  "stdin_reads (fst (process_line dry_run line)) = []"
proof -
  have "tty_reads (fst (process_line dry_run line)) = []
      \<and> stdin_reads (fst (process_line dry_run line)) = []"
  proof (cases "classify line = Valid")
    case True
    show ?thesis unfolding process_line_valid [OF True]
      by (simp add: fst_andthen fst_emit fst_show_or_run reads_assign_groups
          tty_reads_append stdin_reads_append tty_reads_print stdin_reads_print)
  next
    case False
    then show ?thesis by (simp add: process_line_skipped)
  qed
  then show "tty_reads (fst (process_line dry_run line)) = []"
    "stdin_reads (fst (process_line dry_run line)) = []" by simp_all
qed


subsection \<open>Lines without a NUL character\<close>








subsection \<open>The whole stream\<close>

lemma agrees_process_stdin: "agrees (process_stdin False lines) (process_stdin True lines)"
proof (induction lines)
  case Nil
  show ?case by (simp add: agrees_quiet)
next
  case (Cons line rest)
  have "agrees (emit [ReadStdin line]) (emit [ReadStdin line])"
    by (rule agrees_quiet) simp_all
  then show ?case
    unfolding process_stdin.simps
    by (intro agrees_andthen agrees_process_line Cons.IH)
qed


lemma tty_reads_stdin: "tty_reads (fst (process_stdin dry_run lines)) = []"
  by (induction lines) (simp_all add: fst_emit fst_andthen tty_reads_append reads_line)

lemma stdin_reads_prefix: "prefix (stdin_reads (fst (process_stdin dry_run lines))) lines"
  by (induction lines) (simp_all add: fst_emit fst_andthen stdin_reads_append reads_line)

lemma stdin_reads_all:
  assumes "snd (process_stdin dry_run lines) = None"
  shows "stdin_reads (fst (process_stdin dry_run lines)) = lines"
  using assms
  by (induction lines)
    (simp_all add: fst_emit snd_emit fst_andthen snd_andthen_None stdin_reads_append reads_line)

lemma process_stdin_foldr:
  "process_stdin dry_run lines =
     foldr (\<lambda>line r. andthen (emit [ReadStdin line]) (andthen (process_line dry_run line) r))
       lines (emit [])"
  by (induction lines) simp_all

lemma process_stdin_append:
  "process_stdin dry_run (xs @ ys) = andthen (process_stdin dry_run xs) (process_stdin dry_run ys)"
  by (induction xs) (simp_all add: andthen_emit_Nil andthen_assoc)

subsection \<open>The answer\<close>

lemma upper_char_Y: "upper_char c = CHR ''Y'' \<longleftrightarrow> c = CHR ''Y'' \<or> c = CHR ''y''"
proof
  assume h: "upper_char c = CHR ''Y''"
  define n where "n = (of_char c :: nat)"
  show "c = CHR ''Y'' \<or> c = CHR ''y''"
  proof (cases "97 \<le> n \<and> n \<le> 122")
    case True
    with h have "char_of (n - 32) = CHR ''Y''"
      by (simp add: upper_char_def n_def Let_def)
    then have "(of_char (char_of (n - 32) :: char) :: nat) = of_char CHR ''Y''"
      by simp
    then have "(n - 32) mod 256 = 89"
      by (simp only: of_char_of) simp
    moreover from True have "n - 32 < 256" by linarith
    then have "(n - 32) mod 256 = n - 32" by (rule mod_less)
    ultimately have "n - 32 = 89" by simp
    with True have "n = 121" by linarith
    then have "(of_char c :: nat) = of_char CHR ''y''" by (simp add: n_def)
    then have "c = CHR ''y''" by (simp only: of_char_eq_iff)
    then show ?thesis by simp
  next
    case False
    then have "upper_char c = c" by (auto simp: upper_char_def n_def Let_def)
    with h show ?thesis by simp
  qed
next
  assume "c = CHR ''Y'' \<or> c = CHR ''y''"
  then show "upper_char c = CHR ''Y''"
    by (auto simp: upper_char_def char_of_eq_iff)
qed

lemma upper_Y: "upper s = ''Y'' \<longleftrightarrow> s = ''Y'' \<or> s = ''y''"
  by (cases s) (auto simp: upper_def upper_char_Y)

lemma select_mode_iff: "select_mode answer \<longleftrightarrow> strip answer = ''Y'' \<or> strip answer = ''y''"
  by (simp add: select_mode_def upper_Y)

section \<open>The claims\<close>

text \<open>
  C1, as amended. A line whose first character is \<open>#\<close> (position 0 of the line as read,
  nothing trimmed) is a comment: in live mode it produces nothing, in dry-run mode the
  SKIP message alone; nothing is raised, and in neither mode is a command handed to
  \<open>os.system\<close>, run or shown.
\<close>

theorem comment_line_no_action:
  assumes "line = CHR ''#'' # rest"
  shows "classify line = Comment
       \<and> process_line dry_run line =
           ((if dry_run then [py_print (''SKIP (comment line): '' @ rstrip_nl line)] else []),
            None)
       \<and> called (fst (process_line dry_run line)) = []
       \<and> executed (fst (process_line dry_run line)) = []
       \<and> would_run (fst (process_line dry_run line)) = []"
proof -
  from assms have m: "re_match_hash line" by (simp add: re_match_hash_def)
  then have c: "classify line \<noteq> Valid" by (simp add: classify_def)
  have "process_line dry_run line =
          ((if dry_run then [py_print (''SKIP (comment line): '' @ rstrip_nl line)] else []),
           None)"
    using m by (rule process_line_comment)
  with m process_line_skipped(2,3,4) [OF c, of dry_run] show ?thesis
    by (simp only: classify_Comment simp_thms)
qed

theorem comment_line_no_action_witness:
  "''# setup file\<newline>'' = CHR ''#'' # '' setup file\<newline>''
   \<and> process_line True ''# setup file\<newline>'' =
        ([Write ''SKIP (comment line): # setup file\<newline>''], None)
   \<and> process_line False ''# setup file\<newline>'' = ([], None)
   \<and> called (fst (process_line False ''# setup file\<newline>'')) = []
   \<and> executed (fst (process_line False ''# setup file\<newline>'')) = []
   \<and> would_run (fst (process_line True ''# setup file\<newline>'')) = []"
proof -
  have h: "''# setup file\<newline>'' = CHR ''#'' # '' setup file\<newline>''" by simp
  have r: "rstrip_nl ''# setup file\<newline>'' = ''# setup file''" by code_simp
  show ?thesis
    using comment_line_no_action [OF h, of True] comment_line_no_action [OF h, of False] r
    by (simp add: py_print_def marker_def executed_def)
qed

text \<open>
  C1 as stated fails: a line with a blank before the \<open>#\<close> is not matched by the comment
  test, and with five fields it is a record. In live mode its three commands are run.
\<close>

theorem indented_hash_counterexample:
  "dropWhile isspace '' #x:p:l:f:g\<newline>'' = ''#x:p:l:f:g\<newline>''
   \<and> classify '' #x:p:l:f:g\<newline>'' = Valid
   \<and> snd (process_line False '' #x:p:l:f:g\<newline>'') = None
   \<and> executed (fst (process_line False '' #x:p:l:f:g\<newline>'')) =
        [''/usr/sbin/useradd -m -c '' @ [CHR 0x27] @ ''f l,,,'' @ [CHR 0x27] @ '' #x'',
         ''/bin/echo -ne '' @ [CHR 0x27] @ ''p\<newline>p'' @ [CHR 0x27]
            @ '' | /usr/bin/sudo /usr/bin/passwd #x'',
         ''/usr/sbin/adduser #x g'']
   \<and> would_run (fst (process_line True '' #x:p:l:f:g\<newline>'')) =
        [''/usr/sbin/useradd -m -c '' @ [CHR 0x27] @ ''f l,,,'' @ [CHR 0x27] @ '' #x'',
         ''/bin/echo -ne '' @ [CHR 0x27] @ ''p\<newline>p'' @ [CHR 0x27]
            @ '' | /usr/bin/sudo /usr/bin/passwd #x'',
         ''/usr/sbin/adduser #x g'']"
  by code_simp




text \<open>
  C3. A line that is not a comment and whose stripped text does not split on \<open>:\<close> into
  exactly five fields is malformed: the loop body ends at its second \<open>continue\<close>, with the
  ERROR message in dry-run mode and nothing in live mode; nothing is raised, and no
  command is handed to \<open>os.system\<close>, run or shown, whatever the fields hold. The empty
  line is such a line: it splits to one empty field.
\<close>

theorem malformed_line_no_action:
  assumes "classify line \<noteq> Comment" and "length (fields_of line) \<noteq> 5"
  shows "classify line = Malformed
       \<and> process_line dry_run line =
           ((if dry_run
             then [py_print (''ERROR (dry-run): Not enough fields in line: '' @ rstrip_nl line)]
             else []),
            None)
       \<and> called (fst (process_line dry_run line)) = []
       \<and> executed (fst (process_line dry_run line)) = []
       \<and> would_run (fst (process_line dry_run line)) = []
       \<and> fields_of ''\<newline>'' = ['''']
       \<and> classify ''\<newline>'' = Malformed"
proof -
  from assms have m: "\<not> re_match_hash line" by (simp add: classify_Comment)
  with assms(2) have c: "classify line \<noteq> Valid" by (simp add: classify_def)
  have e: "fields_of ''\<newline>'' = ['''']" by (simp add: strip_def isspace_def)
  then have "classify ''\<newline>'' = Malformed" by (simp add: classify_def re_match_hash_def)
  moreover have "process_line dry_run line =
          ((if dry_run
            then [py_print (''ERROR (dry-run): Not enough fields in line: '' @ rstrip_nl line)]
            else []),
           None)"
    using m assms(2) by (rule process_line_malformed)
  ultimately show ?thesis
    using m assms(2) e process_line_skipped(2,3,4) [OF c, of dry_run]
    by (simp only: classify_Malformed simp_thms)
qed

theorem malformed_line_no_action_witness:
  "classify ''badline:onlytwo\<newline>'' \<noteq> Comment
   \<and> length (fields_of ''badline:onlytwo\<newline>'') \<noteq> 5
   \<and> process_line True ''badline:onlytwo\<newline>'' =
        ([Write ''ERROR (dry-run): Not enough fields in line: badline:onlytwo\<newline>''], None)
   \<and> process_line False ''badline:onlytwo\<newline>'' = ([], None)
   \<and> called (fst (process_line False ''badline:onlytwo\<newline>'')) = []
   \<and> executed (fst (process_line False ''badline:onlytwo\<newline>'')) = []
   \<and> would_run (fst (process_line True ''badline:onlytwo\<newline>'')) = []"
proof -
  have h1: "classify ''badline:onlytwo\<newline>'' \<noteq> Comment" by code_simp
  have h2: "length (fields_of ''badline:onlytwo\<newline>'') \<noteq> 5" by code_simp
  have r: "rstrip_nl ''badline:onlytwo\<newline>'' = ''badline:onlytwo''" by code_simp
  show ?thesis
    using malformed_line_no_action [OF h1 h2, of True]
      malformed_line_no_action [OF h1 h2, of False] h1 h2 r
    by (simp add: py_print_def marker_def executed_def)
qed




text \<open>
  C5. The add-user command of a valid record is \<open>/usr/sbin/useradd\<close> with \<open>-m\<close> (create the
  home directory) and \<open>-c\<close> followed, in single quotes, by the fourth field, a blank, the
  third field and \<open>,,,\<close>, then the user name. It is the first command handed to
  \<open>os.system\<close> in live mode (and the first command run, when it holds no NUL character)
  and the first command shown in dry-run mode.
\<close>

theorem create_cmd_home_and_gecos:
  assumes "classify line = Valid"
  shows "take 1 (called (fst (process_line False line))) =
           [''/usr/sbin/useradd -m -c '' @ [CHR 0x27]
              @ fields_of line ! 3 @ '' '' @ fields_of line ! 2 @ '',,,'' @ [CHR 0x27]
              @ '' '' @ fields_of line ! 0]
       \<and> take 1 (would_run (fst (process_line True line))) =
           [''/usr/sbin/useradd -m -c '' @ [CHR 0x27]
              @ fields_of line ! 3 @ '' '' @ fields_of line ! 2 @ '',,,'' @ [CHR 0x27]
              @ '' '' @ fields_of line ! 0]
       \<and> (CHR 0x00 \<notin> set (create_cmd_of line) \<longrightarrow>
            take 1 (executed (fst (process_line False line))) =
              [''/usr/sbin/useradd -m -c '' @ [CHR 0x27]
                 @ fields_of line ! 3 @ '' '' @ fields_of line ! 2 @ '',,,'' @ [CHR 0x27]
                 @ '' '' @ fields_of line ! 0])"
  using called_line_valid [OF assms] would_run_line_valid [OF assms]
    executed_line_valid_first [OF assms]
  by (simp add: create_cmd_def gecos_of_def)

theorem create_cmd_home_and_gecos_witness:
  "classify ''alice:Secret1:Smith:Alice:wheel,docker\<newline>'' = Valid
   \<and> CHR 0x00 \<notin> set (create_cmd_of ''alice:Secret1:Smith:Alice:wheel,docker\<newline>'')
   \<and> take 1 (called (fst (process_line False ''alice:Secret1:Smith:Alice:wheel,docker\<newline>''))) =
        [''/usr/sbin/useradd -m -c '' @ [CHR 0x27] @ ''Alice Smith,,,'' @ [CHR 0x27] @ '' alice'']
   \<and> take 1 (executed (fst (process_line False ''alice:Secret1:Smith:Alice:wheel,docker\<newline>''))) =
        [''/usr/sbin/useradd -m -c '' @ [CHR 0x27] @ ''Alice Smith,,,'' @ [CHR 0x27] @ '' alice'']
   \<and> take 1 (would_run (fst (process_line True ''alice:Secret1:Smith:Alice:wheel,docker\<newline>''))) =
        [''/usr/sbin/useradd -m -c '' @ [CHR 0x27] @ ''Alice Smith,,,'' @ [CHR 0x27] @ '' alice'']"
proof -
  have h: "classify ''alice:Secret1:Smith:Alice:wheel,docker\<newline>'' = Valid" by code_simp
  have f: "fields_of ''alice:Secret1:Smith:Alice:wheel,docker\<newline>'' =
             [''alice'', ''Secret1'', ''Smith'', ''Alice'', ''wheel,docker'']"
    by code_simp
  have z: "CHR 0x00 \<notin> set (create_cmd_of ''alice:Secret1:Smith:Alice:wheel,docker\<newline>'')"
    by (simp add: f create_cmd_def gecos_of_def)
  note t = create_cmd_home_and_gecos [OF h]
  note handed = t [THEN conjunct1]
  note shown = t [THEN conjunct2, THEN conjunct1]
  note run = t [THEN conjunct2, THEN conjunct2, rule_format, OF z]
  from h z handed run shown show ?thesis by (simp add: f)
qed




text \<open>
  C6. The mode is decided first, from one line of the terminal: \<open>main\<close> prints the prompt,
  reads one line from \<open>/dev/tty\<close> and leaves the other lines of the terminal unread; only
  then are the lines of standard input read, in order from the first (all of them when
  no exception ends the run, as in every dry-run pass), and each is processed under the
  one value of \<open>dry_run\<close> computed from the answer. That value is true exactly when the
  answer, stripped of surrounding whitespace, is \<open>Y\<close> or \<open>y\<close>; \<open>YES\<close>, \<open>N\<close> and an empty
  answer give live mode. Without a terminal \<open>main\<close> fails before anything else happens.
\<close>

theorem mode_from_one_tty_line:
  "main (Some tty) stdin =
     ((print_noend ''Run in dry-run mode? (Y/N): ''
       # ReadTty (fst (readline tty))
       # fst (process_stdin (select_mode (fst (readline tty))) stdin),
       snd (process_stdin (select_mode (fst (readline tty))) stdin)),
      snd (readline tty))
   \<and> tty_reads (fst (process_stdin dry_run stdin)) = []
   \<and> prefix (stdin_reads (fst (process_stdin dry_run stdin))) stdin
   \<and> (snd (process_stdin dry_run stdin) = None \<longrightarrow>
        stdin_reads (fst (process_stdin dry_run stdin)) = stdin)
   \<and> stdin_reads (fst (process_stdin True stdin)) = stdin
   \<and> process_stdin dry_run stdin =
       foldr (\<lambda>line r. andthen (emit [ReadStdin line]) (andthen (process_line dry_run line) r))
         stdin (emit [])
   \<and> (select_mode answer \<longleftrightarrow> strip answer = ''Y'' \<or> strip answer = ''y'')
   \<and> \<not> select_mode ''YES\<newline>'' \<and> \<not> select_mode ''N\<newline>''
   \<and> \<not> select_mode ''\<newline>'' \<and> \<not> select_mode ''''
   \<and> main None stdin = (([], Some OSError), [])"
proof -
  have m: "main (Some tty) stdin =
     ((print_noend ''Run in dry-run mode? (Y/N): ''
       # ReadTty (fst (readline tty))
       # fst (process_stdin (select_mode (fst (readline tty))) stdin),
       snd (process_stdin (select_mode (fst (readline tty))) stdin)),
      snd (readline tty))"
    by (simp add: main_def andthen_emit Let_def split: prod.split)
  have n: "\<not> select_mode ''YES\<newline>''" "\<not> select_mode ''N\<newline>''"
    "\<not> select_mode ''\<newline>''" "\<not> select_mode ''''"
    by (simp_all add: select_mode_iff strip_def isspace_def)
  have e: "main None stdin = (([], Some OSError), [])" by (simp add: main_def throw_def)
  have d: "snd (process_stdin True stdin) = None"
    using agrees_process_stdin [of stdin] by (simp add: agrees_def)
  have a: "snd (process_stdin dry_run stdin) = None \<longrightarrow>
        stdin_reads (fst (process_stdin dry_run stdin)) = stdin"
    by (simp add: stdin_reads_all)
  show ?thesis
    using m n e a stdin_reads_all [OF d] tty_reads_stdin [of dry_run stdin]
      stdin_reads_prefix [of dry_run stdin] process_stdin_foldr [of dry_run stdin]
      select_mode_iff [of answer]
    by (simp only: simp_thms)
qed

theorem mode_from_one_tty_line_witness:
  "main (Some ['' y \<newline>'', ''bob:pw:Lee:Bob:-\<newline>'']) [''# setup file\<newline>'', ''\<newline>''] =
     (([Write ''Run in dry-run mode? (Y/N): '',
        ReadTty '' y \<newline>'',
        ReadStdin ''# setup file\<newline>'',
        Write ''SKIP (comment line): # setup file\<newline>'',
        ReadStdin ''\<newline>'',
        Write ''ERROR (dry-run): Not enough fields in line: \<newline>''],
       None),
      [''bob:pw:Lee:Bob:-\<newline>''])
   \<and> select_mode '' y \<newline>''
   \<and> main (Some []) [''# setup file\<newline>'', ''\<newline>''] =
     (([Write ''Run in dry-run mode? (Y/N): '',
        ReadTty '''',
        ReadStdin ''# setup file\<newline>'',
        ReadStdin ''\<newline>''],
       None),
      [])
   \<and> stdin_reads (fst (process_stdin False [''# setup file\<newline>'', ''\<newline>'']))
       = [''# setup file\<newline>'', ''\<newline>'']"
proof -
  have s: "strip '' y \<newline>'' = ''y''" by code_simp
  have d: "process_stdin True [''# setup file\<newline>'', ''\<newline>''] =
     ([ReadStdin ''# setup file\<newline>'',
       Write ''SKIP (comment line): # setup file\<newline>'',
       ReadStdin ''\<newline>'',
       Write ''ERROR (dry-run): Not enough fields in line: \<newline>''], None)"
    by code_simp
  have l: "process_stdin False [''# setup file\<newline>'', ''\<newline>''] =
     ([ReadStdin ''# setup file\<newline>'', ReadStdin ''\<newline>''], None)"
    by code_simp
  note t1 = mode_from_one_tty_line
        [of "['' y \<newline>'', ''bob:pw:Lee:Bob:-\<newline>'']" "[''# setup file\<newline>'', ''\<newline>'']"
          False "'' y \<newline>''"]
  note t2 = mode_from_one_tty_line [of "[]" "[''# setup file\<newline>'', ''\<newline>'']" False "''''"]
  have ok: "snd (process_stdin False [''# setup file\<newline>'', ''\<newline>'']) = None"
    by (simp only: l snd_conv)
  note all_read = t1 [THEN conjunct2, THEN conjunct2, THEN conjunct2, THEN conjunct1,
      rule_format, OF ok]
  have y: "select_mode '' y \<newline>''"
    using t1 [THEN conjunct2, THEN conjunct2, THEN conjunct2, THEN conjunct2, THEN conjunct2,
      THEN conjunct2, THEN conjunct1] s by simp
  have n: "\<not> select_mode ''''"
    using t2 by blast
  have m1: "main (Some ['' y \<newline>'', ''bob:pw:Lee:Bob:-\<newline>'']) [''# setup file\<newline>'', ''\<newline>''] =
     (([Write ''Run in dry-run mode? (Y/N): '',
        ReadTty '' y \<newline>'',
        ReadStdin ''# setup file\<newline>'',
        Write ''SKIP (comment line): # setup file\<newline>'',
        ReadStdin ''\<newline>'',
        Write ''ERROR (dry-run): Not enough fields in line: \<newline>''],
       None),
      [''bob:pw:Lee:Bob:-\<newline>''])"
    unfolding t1 [THEN conjunct1] using y by (simp add: d print_noend_def del: process_stdin.simps)
  have m2: "main (Some []) [''# setup file\<newline>'', ''\<newline>''] =
     (([Write ''Run in dry-run mode? (Y/N): '',
        ReadTty '''',
        ReadStdin ''# setup file\<newline>'',
        ReadStdin ''\<newline>''],
       None),
      [])"
    unfolding t2 [THEN conjunct1] using n by (simp add: l print_noend_def del: process_stdin.simps)
  from m1 y m2 all_read show ?thesis by (simp only: simp_thms)
qed

text \<open>
  C7. For a line that is a comment or malformed, the dry-run pass prints one message,
  the reason (\<open>SKIP (comment line)\<close> for a comment, \<open>ERROR (dry-run): Not enough fields in
  line\<close> for a malformed line) followed by the line without its trailing newline, and
  the live pass prints nothing; nothing is raised. In both modes the loop goes on: when
  the run has reached the line, the lines after it are read and processed as they would
  be without it.
\<close>

theorem skipped_line_diagnostic_only_in_dry_run:
  assumes "classify line \<noteq> Valid"
  shows "process_line True line =
           ([py_print ((if classify line = Comment then ''SKIP (comment line): ''
                        else ''ERROR (dry-run): Not enough fields in line: '')
                       @ rstrip_nl line)],
            None)
       \<and> process_line False line = ([], None)
       \<and> process_stdin dry_run (line # rest) =
           andthen (emit (ReadStdin line # fst (process_line dry_run line)))
                   (process_stdin dry_run rest)
       \<and> (snd (process_stdin dry_run before) = None \<longrightarrow>
            fst (process_stdin dry_run (before @ line # rest)) =
              fst (process_stdin dry_run before)
              @ ReadStdin line # fst (process_line dry_run line)
              @ fst (process_stdin dry_run rest)
            \<and> snd (process_stdin dry_run (before @ line # rest)) =
                snd (process_stdin dry_run rest))
       \<and> (snd (process_stdin dry_run (before @ line # rest)) = None \<longrightarrow>
            stdin_reads (fst (process_stdin dry_run (before @ line # rest))) =
              before @ line # rest)
       \<and> stdin_reads (fst (process_stdin True (before @ line # rest))) = before @ line # rest"
proof -
  have d: "process_line True line =
           ([py_print ((if classify line = Comment then ''SKIP (comment line): ''
                        else ''ERROR (dry-run): Not enough fields in line: '')
                       @ rstrip_nl line)],
            None)
       \<and> process_line False line = ([], None)"
  proof (cases "re_match_hash line")
    case True
    then show ?thesis by (simp add: process_line_comment classify_Comment)
  next
    case False
    with assms have "length (fields_of line) \<noteq> 5"
      by (simp add: classify_def split: if_splits)
    with False show ?thesis by (simp add: process_line_malformed classify_Comment)
  qed
  have q: "snd (process_line dry_run line) = None"
    using assms by (rule process_line_skipped)
  have c: "process_stdin dry_run (line # rest) =
           andthen (emit (ReadStdin line # fst (process_line dry_run line)))
                   (process_stdin dry_run rest)"
    using q by (simp add: andthen_def emit_def)
  have b: "snd (process_stdin dry_run before) = None \<longrightarrow>
            fst (process_stdin dry_run (before @ line # rest)) =
              fst (process_stdin dry_run before)
              @ ReadStdin line # fst (process_line dry_run line)
              @ fst (process_stdin dry_run rest)
            \<and> snd (process_stdin dry_run (before @ line # rest)) =
                snd (process_stdin dry_run rest)"
    unfolding process_stdin_append c by (simp add: andthen_def emit_def)
  have r: "snd (process_stdin dry_run (before @ line # rest)) = None \<longrightarrow>
            stdin_reads (fst (process_stdin dry_run (before @ line # rest))) =
              before @ line # rest"
    by (simp add: stdin_reads_all)
  have "snd (process_stdin True (before @ line # rest)) = None"
    using agrees_process_stdin [of "before @ line # rest"] by (simp add: agrees_def)
  then have t: "stdin_reads (fst (process_stdin True (before @ line # rest))) =
      before @ line # rest"
    by (rule stdin_reads_all)
  from d c b r t show ?thesis by blast
qed

theorem skipped_line_diagnostic_only_in_dry_run_witness:
  "classify ''badline:onlytwo\<newline>'' \<noteq> Valid
   \<and> process_line True ''badline:onlytwo\<newline>'' =
        ([Write ''ERROR (dry-run): Not enough fields in line: badline:onlytwo\<newline>''], None)
   \<and> process_line False ''badline:onlytwo\<newline>'' = ([], None)
   \<and> classify ''# setup file\<newline>'' \<noteq> Valid
   \<and> process_line True ''# setup file\<newline>'' =
        ([Write ''SKIP (comment line): # setup file\<newline>''], None)
   \<and> process_line False ''# setup file\<newline>'' = ([], None)
   \<and> fst (process_stdin False [''\<newline>'', ''# setup file\<newline>'', ''al:s:S:A:-'']) =
        fst (process_stdin False [''\<newline>''])
        @ ReadStdin ''# setup file\<newline>'' # fst (process_line False ''# setup file\<newline>'')
        @ fst (process_stdin False [''al:s:S:A:-''])"
proof -
  have h1: "classify ''badline:onlytwo\<newline>'' \<noteq> Valid" by code_simp
  have c1: "classify ''badline:onlytwo\<newline>'' \<noteq> Comment" by code_simp
  have r1: "rstrip_nl ''badline:onlytwo\<newline>'' = ''badline:onlytwo''" by code_simp
  have h2: "classify ''# setup file\<newline>'' \<noteq> Valid" by code_simp
  have c2: "classify ''# setup file\<newline>'' = Comment" by code_simp
  have r2: "rstrip_nl ''# setup file\<newline>'' = ''# setup file''" by code_simp
  have b: "snd (process_stdin False [''\<newline>'']) = None" by code_simp
  note t1 = skipped_line_diagnostic_only_in_dry_run [OF h1, of False "[]" "[]"]
  note t2 = skipped_line_diagnostic_only_in_dry_run
      [OF h2, of False "[''al:s:S:A:-'']" "[''\<newline>'']"]
  note on = t2 [THEN conjunct2, THEN conjunct2, THEN conjunct2, THEN conjunct1,
      rule_format, OF b, THEN conjunct1]
  have d1: "process_line True ''badline:onlytwo\<newline>'' =
        ([Write ''ERROR (dry-run): Not enough fields in line: badline:onlytwo\<newline>''], None)"
    unfolding t1 [THEN conjunct1] using c1 by (simp add: r1 py_print_def)
  have d2: "process_line True ''# setup file\<newline>'' =
        ([Write ''SKIP (comment line): # setup file\<newline>''], None)"
    unfolding t2 [THEN conjunct1] by (simp add: c2 r2 py_print_def)
  note l1 = t1 [THEN conjunct2, THEN conjunct1]
  note l2 = t2 [THEN conjunct2, THEN conjunct1]
  have on': "fst (process_stdin False [''\<newline>'', ''# setup file\<newline>'', ''al:s:S:A:-'']) =
        fst (process_stdin False [''\<newline>''])
        @ ReadStdin ''# setup file\<newline>'' # fst (process_line False ''# setup file\<newline>'')
        @ fst (process_stdin False [''al:s:S:A:-''])"
    using on by simp
  from h1 d1 l1 h2 d2 l2 on' show ?thesis by (simp only: simp_thms)
qed







end
